theory Spec2Isabelle
  imports Main "HOL-Library.Char_ord" "HOL-Library.List_Lexorder" "HOL-Library.Multiset"
begin

section \<open>The price management page (src/pages/PriceManagement.jsx)\<close>

text \<open>
  The page is one React component. Its state variables (\<open>user\<close>, \<open>priceHistory\<close>,
  \<open>currentPrices\<close>, \<open>loading\<close>, \<open>newPrice\<close>) and everything it acts on (the relational
  store behind the \<open>supabase\<close> client, the toasts it raises, the routes it navigates to)
  are gathered in one record, \<open>world\<close>, which every operation takes and returns.
  Each request to the store is answered by the environment: an \<open>outcome\<close> argument says
  whether the request succeeds or comes back with an error. Calls to \<open>console.log\<close> and
  \<open>console.error\<close> leave no trace in the model.
\<close>

subsection \<open>Rows\<close>

text \<open>
  Identifiers (uuids or serials in the store) and timestamps are natural numbers. A price
  is carried as the text the form field holds (\<open>e.target.value\<close> of the number input);
  the store's conversion to a decimal is not modelled.
\<close>

record person =
  first_name :: string
  last_name :: string

text \<open>A row of \<open>users\<close>; \<open>user_id\<close> is its column \<open>id\<close>.\<close>

record user_row = person +
  user_id :: nat
  role :: string

text \<open>The form state \<open>newPrice\<close>, lines 17-21.\<close>

record price_form =
  coffee_type :: string
  price_per_kg :: string
  currency :: string

text \<open>
  A row of \<open>coffee_prices\<close>: the inserted object \<open>{...newPrice, created_by, is_active}\<close>
  of lines 129-133 and the columns the store fills in.
\<close>

record price_row = price_form +
  created_by :: nat
  is_active :: bool
  price_id :: nat
  updated_at :: nat

text \<open>A price row as the query of lines 70-76 returns it, with the joined \<open>creator\<close>.\<close>

record price_view = price_row +
  creator :: "person option"

text \<open>
  The object \<open>historyRecord\<close> of lines 160-167. Its keys \<open>price_id\<close> and \<open>coffee_type\<close>
  are \<open>history_price_id\<close> and \<open>history_coffee_type\<close> here, the names being taken by the
  price rows.
\<close>

record historyRecord =
  history_price_id :: nat
  history_coffee_type :: string
  old_price :: string
  new_price :: string
  changed_by :: nat
  reason :: string

text \<open>A row of \<open>coffee_price_history\<close>: the inserted object and the store's columns.\<close>

record history_row = historyRecord +
  history_id :: nat
  change_date :: nat

text \<open>
  A history row as the query of lines 93-99 returns it; \<open>history_user\<close> is the joined
  object the query names \<open>user\<close>.
\<close>

record history_view = history_row +
  history_user :: "person option"

subsection \<open>The store\<close>

text \<open>
  Modelled from the spec: the client \<open>supabase\<close> of \<open>../lib/supabaseClient\<close> and the
  relational store behind it are not among the sources. Section 6 of the specification
  gives the interface (\<open>select(filter, ordering, joins) -> rows\<close>,
  \<open>insert(record) -> insertedRecord\<close>, \<open>update(filter, patch) -> void\<close>, on the tables of
  users, prices and price history); the filters, orderings and joins are the ones the
  source writes. The store is three tables and a clock that stamps inserted rows.
\<close>

record store =
  users :: "user_row list"
  coffee_prices :: "price_row list"
  coffee_price_history :: "history_row list"
  clock :: nat

datatype store_error = StoreError

text \<open>Modelled from the spec: a key the table does not hold yet, for an inserted row.\<close>

definition fresh_id :: "nat list \<Rightarrow> nat" where
  "fresh_id ids = Suc (foldr max ids 0)"

text \<open>
  Modelled from the spec: the join \<open>alias:column (first_name, last_name)\<close> of a select,
  the referenced user's names or null.
\<close>

definition join_person :: "user_row list \<Rightarrow> nat \<Rightarrow> person option" where
  "join_person us k =
     map_option (\<lambda>u. \<lparr>first_name = first_name u, last_name = last_name u\<rparr>)
       (find (\<lambda>u. user_id u = k) us)"

definition with_creator :: "user_row list \<Rightarrow> price_row \<Rightarrow> price_view" where
  "with_creator us r =
     \<lparr>coffee_type = coffee_type r, price_per_kg = price_per_kg r, currency = currency r,
      created_by = created_by r, is_active = is_active r, price_id = price_id r,
      updated_at = updated_at r, creator = join_person us (created_by r)\<rparr>"

definition with_user :: "user_row list \<Rightarrow> history_row \<Rightarrow> history_view" where
  "with_user us h =
     \<lparr>history_price_id = history_price_id h, history_coffee_type = history_coffee_type h,
      old_price = old_price h, new_price = new_price h, changed_by = changed_by h,
      reason = reason h, history_id = history_id h, change_date = change_date h,
      history_user = join_person us (changed_by h)\<rparr>"

text \<open>
  Modelled from the spec: \<open>from('users').select('*').eq('id', k).single()\<close>, an error
  unless exactly one row has the key.
\<close>

definition select_user_single :: "store \<Rightarrow> nat \<Rightarrow> store_error + user_row" where
  "select_user_single s k =
     (case filter (\<lambda>u. user_id u = k) (users s) of
        [u] \<Rightarrow> Inr u
      | _ \<Rightarrow> Inl StoreError)"

text \<open>
  Modelled from the spec: the select of lines 68-78, the rows with \<open>is_active = true\<close>,
  each with its creator, ordered by \<open>coffee_type\<close> ascending.
\<close>

definition select_active_prices :: "store \<Rightarrow> price_view list" where
  "select_active_prices s =
     map (with_creator (users s)) (sort_key coffee_type (filter is_active (coffee_prices s)))"

text \<open>
  Modelled from the spec: the select of lines 91-100, all history rows, each with the
  user who changed the price, ordered by \<open>change_date\<close> descending. Among rows with the
  same date the store may choose any order; the model fixes one.
\<close>

definition select_history :: "store \<Rightarrow> history_view list" where
  "select_history s =
     map (with_user (users s)) (rev (sort_key change_date (coffee_price_history s)))"

text \<open>
  Modelled from the spec: \<open>insert([record]).select().single()\<close> on \<open>coffee_prices\<close>. The
  store gives the row a key of its own and stamps it. A request that fails leaves the
  store as it was.
\<close>

definition inserted_price_row :: "store \<Rightarrow> price_form \<Rightarrow> nat \<Rightarrow> price_row" where
  "inserted_price_row s f uid =
     \<lparr>coffee_type = coffee_type f, price_per_kg = price_per_kg f, currency = currency f,
      created_by = uid, is_active = True,
      price_id = fresh_id (map price_id (coffee_prices s)), updated_at = clock s\<rparr>"

definition insert_price :: "store \<Rightarrow> price_form \<Rightarrow> nat \<Rightarrow> store" where
  "insert_price s f uid = s\<lparr>coffee_prices := coffee_prices s @ [inserted_price_row s f uid]\<rparr>"

text \<open>
  Modelled from the spec: \<open>update({ is_active: false }).eq('price_id', k)\<close> on
  \<open>coffee_prices\<close>; rows with another key are left as they are.
\<close>

definition deactivate :: "nat \<Rightarrow> price_row \<Rightarrow> price_row" where
  "deactivate k r = (if price_id r = k then r\<lparr>is_active := False\<rparr> else r)"

definition update_inactive :: "store \<Rightarrow> nat \<Rightarrow> store" where
  "update_inactive s k = s\<lparr>coffee_prices := map (deactivate k) (coffee_prices s)\<rparr>"

text \<open>
  Modelled from the spec: \<open>insert([historyRecord])\<close> on \<open>coffee_price_history\<close>; the
  store adds the key and the change date.
\<close>

definition inserted_history_row :: "store \<Rightarrow> historyRecord \<Rightarrow> history_row" where
  "inserted_history_row s h =
     \<lparr>history_price_id = history_price_id h, history_coffee_type = history_coffee_type h,
      old_price = old_price h, new_price = new_price h, changed_by = changed_by h,
      reason = reason h,
      history_id = fresh_id (map history_id (coffee_price_history s)),
      change_date = clock s\<rparr>"

definition insert_history :: "store \<Rightarrow> historyRecord \<Rightarrow> store" where
  "insert_history s h =
     s\<lparr>coffee_price_history := coffee_price_history s @ [inserted_history_row s h]\<rparr>"

subsection \<open>The component's state and its surroundings\<close>

datatype outcome = Succeeds | Fails

datatype toast = ToastSuccess string | ToastError string

datatype request =
    AuthGetUser
  | SelectUser nat
  | SelectPrices
  | SelectHistory
  | InsertPrice
  | UpdatePrice nat
  | InsertHistory

text \<open>
  The five state variables of lines 11-21, the store, and the traces of what the
  component did: the toasts raised, the routes passed to \<open>navigate\<close>, and the requests
  issued, each in order.
\<close>

record world =
  user :: "user_row option"
  priceHistory :: "history_view list"
  currentPrices :: "price_view list"
  loading :: bool
  newPrice :: price_form
  db :: store
  toasts :: "toast list"
  navigations :: "string list"
  requests :: "request list"

definition default_form :: price_form where
  "default_form = \<lparr>coffee_type = ''raw'', price_per_kg = '''', currency = ''PHP''\<rparr>"

text \<open>The component as first rendered over a store: the initial values of \<open>useState\<close>.\<close>

definition initial_world :: "store \<Rightarrow> world" where
  "initial_world s =
     \<lparr>user = None, priceHistory = [], currentPrices = [], loading = True,
      newPrice = default_form, db = s, toasts = [], navigations = [], requests = []\<rparr>"

definition toast_error :: "string \<Rightarrow> world \<Rightarrow> world" where
  "toast_error m w = w\<lparr>toasts := toasts w @ [ToastError m]\<rparr>"

definition toast_success :: "string \<Rightarrow> world \<Rightarrow> world" where
  "toast_success m w = w\<lparr>toasts := toasts w @ [ToastSuccess m]\<rparr>"

definition navigate :: "string \<Rightarrow> world \<Rightarrow> world" where
  "navigate route w = w\<lparr>navigations := navigations w @ [route]\<rparr>"

definition issue :: "request \<Rightarrow> world \<Rightarrow> world" where
  "issue q w = w\<lparr>requests := requests w @ [q]\<rparr>"

subsection \<open>checkUser, lines 38-64\<close>

text \<open>
  \<open>authUser\<close> is what \<open>supabase.auth.getUser()\<close> answers: the key of the signed-in
  principal, or nothing.
\<close>

definition checkUser :: "nat option \<Rightarrow> outcome \<Rightarrow> world \<Rightarrow> world" where
  "checkUser authUser reply w =
     (let w1 = issue AuthGetUser w in
      case authUser of
        None \<Rightarrow> navigate ''/login'' w1
      | Some k \<Rightarrow>
          (let w2 = issue (SelectUser k) w1 in
           case (case reply of Fails \<Rightarrow> Inl StoreError
                 | Succeeds \<Rightarrow> select_user_single (db w2) k) of
             Inl error \<Rightarrow> toast_error ''Error checking user permissions'' w2
           | Inr data \<Rightarrow>
               if role data \<noteq> ''admin''
               then navigate ''/dashboard'' (toast_error ''Admin access required'' w2)
               else w2\<lparr>user := Some data\<rparr>))"

subsection \<open>fetchPrices, lines 66-86, and fetchPriceHistory, lines 88-115\<close>

definition fetchPrices :: "outcome \<Rightarrow> world \<Rightarrow> world" where
  "fetchPrices reply w =
     (let w1 = issue SelectPrices w in
      case reply of
        Succeeds \<Rightarrow> w1\<lparr>currentPrices := select_active_prices (db w1)\<rparr>
      | Fails \<Rightarrow> toast_error ''Failed to fetch current prices'' w1)"

definition fetchPriceHistory :: "outcome \<Rightarrow> world \<Rightarrow> world" where
  "fetchPriceHistory reply w =
     (let w1 = issue SelectHistory w;
          w2 = (case reply of
                  Succeeds \<Rightarrow> w1\<lparr>priceHistory := select_history (db w1)\<rparr>
                | Fails \<Rightarrow> toast_error ''Failed to fetch price history'' w1)
      in w2\<lparr>loading := False\<rparr>)"

subsection \<open>The effect on mount, lines 32-36\<close>

text \<open>
  The effect calls the three operations one after another and awaits none of them, so
  each issues its request whatever the others are answered. The three write state
  variables the others do not read. The model runs them in the order they are called;
  the order in which the answers arrive, and so the order of the requests in the trace,
  is not modelled.
\<close>

definition mount :: "nat option \<Rightarrow> outcome \<Rightarrow> outcome \<Rightarrow> outcome \<Rightarrow> world \<Rightarrow> world" where
  "mount authUser userAnswer pricesAnswer historyAnswer w =
     fetchPriceHistory historyAnswer (fetchPrices pricesAnswer (checkUser authUser userAnswer w))"

subsection \<open>handleSubmit, lines 117-199\<close>

text \<open>The answers of the store to the five requests a submission can issue.\<close>

record replies =
  insertReply :: outcome
  updateReply :: outcome
  historyReply :: outcome
  pricesReply :: outcome
  historyReadReply :: outcome

datatype thrown = TypeError | Thrown store_error

text \<open>Lines 183-192: the end of the \<open>try\<close> block, reached when nothing was thrown.\<close>

definition submit_finish :: "replies \<Rightarrow> world \<Rightarrow> world" where
  "submit_finish r w =
     fetchPriceHistory (historyReadReply r)
       (fetchPrices (pricesReply r)
          ((toast_success ''Price updated successfully'' w)\<lparr>newPrice := default_form\<rparr>))"

text \<open>
  Lines 122-192, the \<open>try\<close> block: \<open>Inl\<close> is the value thrown, with the world as it was
  then; \<open>Inr\<close> is the world at the end of the block. Reading \<open>user.id\<close> of a null \<open>user\<close>
  throws a TypeError while the argument of \<open>insert\<close> is built.
\<close>

definition submit_try :: "replies \<Rightarrow> world \<Rightarrow> thrown \<times> world + world" where
  "submit_try r w =
     (let currentPrice = find (\<lambda>p. coffee_type p = coffee_type (newPrice w)) (currentPrices w) in
      case user w of
        None \<Rightarrow> Inl (TypeError, w)
      | Some u \<Rightarrow>
          (let w1 = issue InsertPrice w in
           case insertReply r of
             Fails \<Rightarrow> Inl (Thrown StoreError, w1)
           | Succeeds \<Rightarrow>
               (let insertedPrice = inserted_price_row (db w1) (newPrice w) (user_id u);
                    w2 = w1\<lparr>db := insert_price (db w1) (newPrice w) (user_id u)\<rparr>
                in case currentPrice of
                     None \<Rightarrow> Inr (submit_finish r w2)
                   | Some cur \<Rightarrow>
                       (let w3 = issue (UpdatePrice (price_id cur)) w2 in
                        case updateReply r of
                          Fails \<Rightarrow> Inl (Thrown StoreError, w3)
                        | Succeeds \<Rightarrow>
                            (let w4 = w3\<lparr>db := update_inactive (db w3) (price_id cur)\<rparr>;
                                 historyRecord =
                                   \<lparr>history_price_id = price_id insertedPrice,
                                    history_coffee_type = coffee_type (newPrice w),
                                    old_price = price_per_kg cur,
                                    new_price = price_per_kg (newPrice w),
                                    changed_by = user_id u,
                                    reason = ''Price update''\<rparr>;
                                 w5 = issue InsertHistory w4
                             in case historyReply r of
                                  Fails \<Rightarrow> Inl (Thrown StoreError, w5)
                                | Succeeds \<Rightarrow>
                                    Inr (submit_finish r
                                          (w5\<lparr>db := insert_history (db w5) historyRecord\<rparr>)))))))"

definition handleSubmit :: "replies \<Rightarrow> world \<Rightarrow> world" where
  "handleSubmit r w =
     (let w0 = w\<lparr>loading := True\<rparr>;
          w1 = (case submit_try r w0 of
                  Inr w' \<Rightarrow> w'
                | Inl (error, w') \<Rightarrow> toast_error ''Failed to update price'' w')
      in w1\<lparr>loading := False\<rparr>)"

text \<open>
  Lines 221, 244 and 261: the form fields' \<open>onChange\<close> handlers, each of which stores a
  new form value with \<open>setNewPrice\<close>.
\<close>

definition setNewPrice :: "price_form \<Rightarrow> world \<Rightarrow> world" where
  "setNewPrice f w = w\<lparr>newPrice := f\<rparr>"

subsection \<open>Notions the properties are stated with\<close>

text \<open>The requests a step issued: what it added to the trace.\<close>

definition issued :: "world \<Rightarrow> world \<Rightarrow> request list" where
  "issued w w' = drop (length (requests w)) (requests w')"

text \<open>
  The prior active price of a submission, line 124: the first loaded price of the
  form's coffee type.
\<close>

definition loaded_price :: "world \<Rightarrow> price_view option" where
  "loaded_price w = find (\<lambda>p. coffee_type p = coffee_type (newPrice w)) (currentPrices w)"

text \<open>A submission succeeds when its \<open>try\<close> block runs to its end.\<close>

definition submit_succeeds :: "replies \<Rightarrow> world \<Rightarrow> bool" where
  "submit_succeeds r w =
     (case submit_try r (w\<lparr>loading := True\<rparr>) of Inr w' \<Rightarrow> True | Inl e \<Rightarrow> False)"

text \<open>A write step fails when the block throws the error a request came back with.\<close>

definition write_fails :: "replies \<Rightarrow> world \<Rightarrow> bool" where
  "write_fails r w =
     (case submit_try r (w\<lparr>loading := True\<rparr>) of
        Inl (Thrown e, w') \<Rightarrow> True
      | _ \<Rightarrow> False)"

text \<open>The number of active price rows of a coffee type, and the invariant on them.\<close>

definition count_active :: "string \<Rightarrow> price_row list \<Rightarrow> nat" where
  "count_active t rows = length (filter (\<lambda>r. coffee_type r = t \<and> is_active r) rows)"

definition at_most_one_active :: "price_row list \<Rightarrow> bool" where
  "at_most_one_active rows = distinct (map coffee_type (filter is_active rows))"

text \<open>Most recent first, with and without room for equal dates.\<close>

definition descending :: "history_view list \<Rightarrow> bool" where
  "descending hs = sorted_wrt (\<lambda>a b. change_date b \<le> change_date a) hs"

definition strictly_descending :: "history_view list \<Rightarrow> bool" where
  "strictly_descending hs = sorted_wrt (\<lambda>a b. change_date b < change_date a) hs"

subsection \<open>Example data\<close>

definition ana :: user_row where
  "ana = \<lparr>first_name = ''Ana'', last_name = ''Cruz'', user_id = 1, role = ''admin''\<rparr>"

definition ben :: user_row where
  "ben = \<lparr>first_name = ''Ben'', last_name = ''Reyes'', user_id = 2, role = ''farmer''\<rparr>"

definition raw150 :: price_row where
  "raw150 =
     \<lparr>coffee_type = ''raw'', price_per_kg = ''150.00'', currency = ''PHP'',
      created_by = 1, is_active = True, price_id = 1, updated_at = 5\<rparr>"

definition raw160 :: price_row where
  "raw160 =
     \<lparr>coffee_type = ''raw'', price_per_kg = ''160.00'', currency = ''PHP'',
      created_by = 1, is_active = True, price_id = 2, updated_at = 10\<rparr>"

definition form_raw_150 :: price_form where
  "form_raw_150 = \<lparr>coffee_type = ''raw'', price_per_kg = ''150.00'', currency = ''PHP''\<rparr>"

definition form_raw_160 :: price_form where
  "form_raw_160 = \<lparr>coffee_type = ''raw'', price_per_kg = ''160.00'', currency = ''PHP''\<rparr>"

text \<open>A store with no price yet, and one whose raw coffee stands at 150.00.\<close>

definition first_store :: store where
  "first_store = \<lparr>users = [ana, ben], coffee_prices = [], coffee_price_history = [], clock = 10\<rparr>"

definition example_store :: store where
  "example_store =
     \<lparr>users = [ana, ben], coffee_prices = [raw150], coffee_price_history = [], clock = 10\<rparr>"

definition change :: "nat \<Rightarrow> nat \<Rightarrow> nat \<Rightarrow> history_row" where
  "change k who date =
     \<lparr>history_price_id = k, history_coffee_type = ''raw'', old_price = ''150.00'',
      new_price = ''160.00'', changed_by = who, reason = ''Price update'',
      history_id = k, change_date = date\<rparr>"

text \<open>Three changes on different dates, and two changes stamped with the same date.\<close>

definition history_store :: store where
  "history_store =
     \<lparr>users = [ana, ben], coffee_prices = [],
      coffee_price_history = [change 1 1 3, change 2 1 9, change 3 7 6], clock = 10\<rparr>"

definition tie_store :: store where
  "tie_store =
     \<lparr>users = [ana, ben], coffee_prices = [],
      coffee_price_history = [change 1 1 7, change 2 1 7], clock = 10\<rparr>"

definition answers :: "outcome \<Rightarrow> outcome \<Rightarrow> outcome \<Rightarrow> replies" where
  "answers i u h =
     \<lparr>insertReply = i, updateReply = u, historyReply = h,
      pricesReply = Succeeds, historyReadReply = Succeeds\<rparr>"

text \<open>
  The page after Ana, an admin, opened it over a store and filled in a price: once with
  every read answered, once with the read of the active prices failing.
\<close>

definition admin_page :: "store \<Rightarrow> price_form \<Rightarrow> world" where
  "admin_page s f = setNewPrice f (mount (Some 1) Succeeds Succeeds Succeeds (initial_world s))"

definition stale_page :: world where
  "stale_page =
     setNewPrice form_raw_160 (mount (Some 1) Succeeds Fails Succeeds (initial_world example_store))"

text \<open>
  The page after Ana's submission of 160.00 over that store got its insert through and
  its deactivating update refused: the form and the loaded list are as before, and the
  submit control is enabled again.
\<close>

definition failed_once :: world where
  "failed_once =
     handleSubmit (answers Succeeds Fails Succeeds) (admin_page example_store form_raw_160)"

section \<open>Properties\<close>

lemmas effect_defs = toast_error_def toast_success_def navigate_def issue_def

lemmas fetch_defs = fetchPrices_def fetchPriceHistory_def submit_finish_def

lemmas submit_defs = handleSubmit_def submit_try_def

lemmas store_defs = insert_price_def update_inactive_def insert_history_def
  inserted_price_row_def inserted_history_row_def deactivate_def fresh_id_def
  select_active_prices_def select_history_def select_user_single_def
  with_creator_def with_user_def join_person_def

lemmas example_defs = ana_def ben_def raw150_def raw160_def form_raw_150_def form_raw_160_def
  first_store_def example_store_def change_def history_store_def tie_store_def answers_def
  admin_page_def stale_page_def setNewPrice_def mount_def checkUser_def initial_world_def
  default_form_def

subsection \<open>What the two outcomes of a submission amount to\<close>

lemma submit_succeeds_iff:
  "submit_succeeds r w \<longleftrightarrow>
     user w \<noteq> None \<and> insertReply r = Succeeds \<and>
     (loaded_price w = None \<or> updateReply r = Succeeds \<and> historyReply r = Succeeds)"
  by (simp add: submit_succeeds_def submit_try_def loaded_price_def Let_def
      split: option.splits outcome.splits)

lemma write_fails_iff:
  "write_fails r w \<longleftrightarrow>
     user w \<noteq> None \<and>
     (insertReply r = Fails \<or>
      loaded_price w \<noteq> None \<and> (updateReply r = Fails \<or> historyReply r = Fails))"
  by (auto simp add: write_fails_def submit_try_def loaded_price_def Let_def
      split: option.splits outcome.splits)

subsection \<open>Keys and the invariant\<close>

lemma foldr_max_ge: "x \<in> set ids \<Longrightarrow> x \<le> foldr max ids (0::nat)"
  by (induction ids) (auto simp: max_def)

lemma fresh_id_notin: "fresh_id ids \<notin> set ids"
proof
  assume "fresh_id ids \<in> set ids"
  then have "fresh_id ids \<le> foldr max ids 0" by (rule foldr_max_ge)
  then show False by (simp add: fresh_id_def)
qed

lemma inserted_price_row_simps:
  "is_active (inserted_price_row s f uid)"
  "coffee_type (inserted_price_row s f uid) = coffee_type f"
  "price_id (inserted_price_row s f uid) \<notin> price_id ` set (coffee_prices s)"
  using fresh_id_notin[of "map price_id (coffee_prices s)"]
  by (simp_all add: inserted_price_row_def)

lemma count_active_snoc:
  "count_active t (rows @ [n]) =
     count_active t rows + (if coffee_type n = t \<and> is_active n then 1 else 0)"
  by (simp add: count_active_def)

text \<open>
  The invariant in the specification's words: no coffee type has more than one active
  row.
\<close>

lemma at_most_one_active_iff:
  "at_most_one_active rows \<longleftrightarrow> (\<forall>t. count_active t rows \<le> 1)"
proof (induction rows)
  case Nil
  show ?case by (simp add: at_most_one_active_def count_active_def)
next
  case (Cons r rows)
  have mem: "\<And>t. t \<in> coffee_type ` {x \<in> set rows. is_active x} \<longleftrightarrow> 0 < count_active t rows"
    by (auto simp: count_active_def filter_empty_conv)
  show ?case
  proof (cases "is_active r")
    case False
    with Cons show ?thesis by (simp add: at_most_one_active_def count_active_def)
  next
    case True
    have "at_most_one_active (r # rows) \<longleftrightarrow>
            \<not> 0 < count_active (coffee_type r) rows \<and> (\<forall>t. count_active t rows \<le> 1)"
      using True Cons mem by (simp add: at_most_one_active_def)
    also have "\<dots> \<longleftrightarrow> (\<forall>t. count_active t (r # rows) \<le> 1)"
    proof
      assume a: "\<not> 0 < count_active (coffee_type r) rows \<and> (\<forall>t. count_active t rows \<le> 1)"
      show "\<forall>t. count_active t (r # rows) \<le> 1"
      proof
        fix t
        from a have "count_active (coffee_type r) rows = 0" "count_active t rows \<le> 1" by auto
        then show "count_active t (r # rows) \<le> 1"
          using True by (cases "coffee_type r = t") (auto simp: count_active_def)
      qed
    next
      assume b: "\<forall>t. count_active t (r # rows) \<le> 1"
      have "\<And>t. count_active t rows \<le> count_active t (r # rows)"
        by (simp add: count_active_def)
      with b have "\<forall>t. count_active t rows \<le> 1" using le_trans by blast
      moreover from b have "count_active (coffee_type r) (r # rows) \<le> 1" by blast
      then have "\<not> 0 < count_active (coffee_type r) rows"
        using True by (simp add: count_active_def)
      ultimately show "\<not> 0 < count_active (coffee_type r) rows \<and> (\<forall>t. count_active t rows \<le> 1)"
        by simp
    qed
    finally show ?thesis .
  qed
qed

lemma only_one:
  assumes "at_most_one_active rows" "x \<in> set rows" "y \<in> set rows" "is_active x" "is_active y"
    "coffee_type x = coffee_type y"
  shows "x = y"
proof -
  from assms(1) have "inj_on coffee_type (set (filter is_active rows))"
    by (simp add: at_most_one_active_def distinct_map)
  then show ?thesis using assms(2-) by (auto dest: inj_onD)
qed

lemma filter_deactivate:
  "filter is_active (map (deactivate k) rows) = filter (\<lambda>r. is_active r \<and> price_id r \<noteq> k) rows"
  by (induction rows) (auto simp: deactivate_def)

lemma count_deactivate:
  "count_active t (map (deactivate k) rows) =
     length (filter (\<lambda>r. coffee_type r = t \<and> is_active r \<and> price_id r \<noteq> k) rows)"
  by (induction rows) (auto simp: deactivate_def count_active_def)

lemma count_after_deactivate:
  assumes "at_most_one_active rows" "r0 \<in> set rows" "is_active r0" "coffee_type r0 = t"
  shows "count_active t (map (deactivate (price_id r0)) rows) = 0"
proof -
  have "\<And>x. x \<in> set rows \<Longrightarrow> coffee_type x = t \<Longrightarrow> is_active x \<Longrightarrow> price_id x = price_id r0"
    using only_one[OF assms(1) _ assms(2) _ assms(3)] assms(4) by auto
  then show ?thesis by (auto simp: count_deactivate filter_empty_conv)
qed

lemma at_most_one_deactivate:
  "at_most_one_active rows \<Longrightarrow> at_most_one_active (map (deactivate k) rows)"
proof -
  assume "at_most_one_active rows"
  then have "distinct (map coffee_type (filter (\<lambda>r. price_id r \<noteq> k) (filter is_active rows)))"
    unfolding at_most_one_active_def by (rule distinct_map_filter)
  then show ?thesis
    by (simp add: at_most_one_active_def filter_deactivate conj_commute)
qed

lemma at_most_one_snoc:
  assumes "at_most_one_active rows" "count_active (coffee_type n) rows = 0"
  shows "at_most_one_active (rows @ [n])"
  using assms by (auto simp: at_most_one_active_def count_active_def filter_empty_conv)

subsection \<open>The loaded list against the store\<close>

lemma loaded_None:
  assumes "currentPrices w = select_active_prices (db w)" and "loaded_price w = None"
  shows "count_active (coffee_type (newPrice w)) (coffee_prices (db w)) = 0"
  using assms
  by (auto simp: loaded_price_def select_active_prices_def find_None_iff with_creator_def
      count_active_def filter_empty_conv)

lemma loaded_Some:
  assumes "currentPrices w = select_active_prices (db w)" and "loaded_price w = Some cur"
  shows "\<exists>r0 \<in> set (coffee_prices (db w)).
     is_active r0 \<and> coffee_type r0 = coffee_type (newPrice w) \<and> price_id r0 = price_id cur"
proof -
  from assms(2) have "cur \<in> set (currentPrices w)" "coffee_type cur = coffee_type (newPrice w)"
    by (auto simp: loaded_price_def find_Some_iff)
  then show ?thesis
    using assms(1) by (auto simp: select_active_prices_def with_creator_def)
qed

lemma prices_after_success:
  assumes "submit_succeeds r w" "user w = Some u"
  shows "coffee_prices (db (handleSubmit r w)) =
     (case loaded_price w of
        None \<Rightarrow> coffee_prices (db w) @ [inserted_price_row (db w) (newPrice w) (user_id u)]
      | Some cur \<Rightarrow> map (deactivate (price_id cur))
          (coffee_prices (db w) @ [inserted_price_row (db w) (newPrice w) (user_id u)]))"
  using assms
  by (simp add: submit_succeeds_def submit_defs fetch_defs effect_defs loaded_price_def Let_def
      insert_price_def update_inactive_def insert_history_def
      split: option.splits outcome.splits)

subsection \<open>Submitting a price\<close>

text \<open>
  Claim C1, as amended. When the store has at most one active row per coffee type and the
  loaded list of active prices is what the store holds, a submission that succeeds leaves
  exactly one active row of the submitted coffee type, and the invariant still holds for
  every coffee type.
\<close>

theorem submit_keeps_one_active:
  assumes inv: "at_most_one_active (coffee_prices (db w))"
    and sync: "currentPrices w = select_active_prices (db w)"
    and ok: "submit_succeeds r w"
  shows "count_active (coffee_type (newPrice w)) (coffee_prices (db (handleSubmit r w))) = 1 \<and>
         at_most_one_active (coffee_prices (db (handleSubmit r w)))"
proof -
  from ok obtain u where u: "user w = Some u"
    by (auto simp: submit_succeeds_def submit_try_def split: option.splits)
  let ?P = "coffee_prices (db w)"
  let ?t = "coffee_type (newPrice w)"
  let ?n = "inserted_price_row (db w) (newPrice w) (user_id u)"
  note n = inserted_price_row_simps[of "db w" "newPrice w" "user_id u"]
  show ?thesis
  proof (cases "loaded_price w")
    case None
    then have after: "coffee_prices (db (handleSubmit r w)) = ?P @ [?n]"
      using prices_after_success[OF ok u] by simp
    have zero: "count_active ?t ?P = 0" using sync None by (rule loaded_None)
    show ?thesis
      unfolding after using zero n inv by (simp add: count_active_snoc at_most_one_snoc)
  next
    case (Some cur)
    from loaded_Some[OF sync Some] obtain r0 where r0: "r0 \<in> set ?P" "is_active r0"
      "coffee_type r0 = ?t" "price_id r0 = price_id cur" by blast
    have "price_id ?n \<noteq> price_id r0" using n(3) r0(1) by auto
    then have keep: "deactivate (price_id cur) ?n = ?n" using r0(4) by (simp add: deactivate_def)
    have after: "coffee_prices (db (handleSubmit r w)) = map (deactivate (price_id cur)) ?P @ [?n]"
      using prices_after_success[OF ok u] Some keep by simp
    have zero: "count_active ?t (map (deactivate (price_id cur)) ?P) = 0"
      using count_after_deactivate[OF inv r0(1) r0(2) r0(3)] r0(4) by simp
    have inv': "at_most_one_active (map (deactivate (price_id cur)) ?P)"
      using inv by (rule at_most_one_deactivate)
    show ?thesis
      unfolding after using zero n inv' by (simp add: count_active_snoc at_most_one_snoc)
  qed
qed

theorem submit_keeps_one_active_witness:
  "at_most_one_active (coffee_prices (db (admin_page example_store form_raw_160))) \<and>
   currentPrices (admin_page example_store form_raw_160) =
     select_active_prices (db (admin_page example_store form_raw_160)) \<and>
   submit_succeeds (answers Succeeds Succeeds Succeeds) (admin_page example_store form_raw_160) \<and>
   count_active ''raw''
     (coffee_prices (db (handleSubmit (answers Succeeds Succeeds Succeeds)
        (admin_page example_store form_raw_160)))) = 1"
proof -
  have inv: "at_most_one_active (coffee_prices (db (admin_page example_store form_raw_160)))"
    by (simp add: example_defs fetch_defs effect_defs store_defs at_most_one_active_def)
  have sync: "currentPrices (admin_page example_store form_raw_160) =
      select_active_prices (db (admin_page example_store form_raw_160))"
    by (simp add: example_defs fetch_defs effect_defs store_defs)
  have ok: "submit_succeeds (answers Succeeds Succeeds Succeeds) (admin_page example_store form_raw_160)"
    by (simp add: submit_succeeds_iff example_defs fetch_defs effect_defs store_defs)
  have t: "coffee_type (newPrice (admin_page example_store form_raw_160)) = ''raw''"
    by (simp add: example_defs fetch_defs effect_defs)
  show ?thesis
    using submit_keeps_one_active[OF inv sync ok] inv sync ok t by simp
qed

text \<open>
  Claim C1 as it is written fails. Ana opens the page over a store whose raw coffee has
  one active price; the read of the active prices fails, so the loaded list stays empty.
  Her submission succeeds and the store, which satisfied the invariant, now has two
  active rows for raw coffee.
\<close>

theorem submit_stale_list_two_active:
  "at_most_one_active (coffee_prices (db stale_page)) \<and>
   submit_succeeds (answers Succeeds Succeeds Succeeds) stale_page \<and>
   coffee_prices (db (handleSubmit (answers Succeeds Succeeds Succeeds) stale_page)) =
     [raw150, raw160] \<and>
   count_active ''raw''
     (coffee_prices (db (handleSubmit (answers Succeeds Succeeds Succeeds) stale_page))) = 2"
  by (simp add: submit_succeeds_def submit_defs example_defs fetch_defs effect_defs store_defs
      at_most_one_active_def count_active_def)

text \<open>
  Claim C2. When the loaded list holds a price for the submitted coffee type, a
  submission that succeeds issues the insert of the price, then the update that
  deactivates the prior record, then the insert of the history row: afterwards no row
  with the prior record's key is active, and the history has exactly one more row, with
  the prior record's price as \<open>old_price\<close>, the submitted price as \<open>new_price\<close>, the
  current admin as \<open>changed_by\<close> and the reason "Price update".
\<close>

theorem submit_records_history:
  assumes "loaded_price w = Some cur" and "submit_succeeds r w" and "user w = Some u"
  shows "issued w (handleSubmit r w) =
      [InsertPrice, UpdatePrice (price_id cur), InsertHistory, SelectPrices, SelectHistory] \<and>
    (\<forall>p \<in> set (coffee_prices (db (handleSubmit r w))). price_id p = price_id cur \<longrightarrow> \<not> is_active p) \<and>
    (\<exists>h. coffee_price_history (db (handleSubmit r w)) = coffee_price_history (db w) @ [h] \<and>
       old_price h = price_per_kg cur \<and> new_price h = price_per_kg (newPrice w) \<and>
       changed_by h = user_id u \<and> reason h = ''Price update'' \<and>
       history_coffee_type h = coffee_type (newPrice w) \<and>
       history_price_id h = price_id (inserted_price_row (db w) (newPrice w) (user_id u)))"
  using assms
  by (auto simp add: submit_succeeds_def submit_defs fetch_defs effect_defs issued_def Let_def
      loaded_price_def insert_price_def update_inactive_def insert_history_def
      inserted_history_row_def deactivate_def
      split: option.splits outcome.splits if_splits)

theorem submit_records_history_witness:
  "loaded_price (admin_page example_store form_raw_160) = Some (with_creator [ana, ben] raw150) \<and>
   submit_succeeds (answers Succeeds Succeeds Succeeds) (admin_page example_store form_raw_160) \<and>
   user (admin_page example_store form_raw_160) = Some ana \<and>
   coffee_prices (db (handleSubmit (answers Succeeds Succeeds Succeeds)
       (admin_page example_store form_raw_160))) = [raw150\<lparr>is_active := False\<rparr>, raw160] \<and>
   coffee_price_history (db (handleSubmit (answers Succeeds Succeeds Succeeds)
       (admin_page example_store form_raw_160))) =
     [\<lparr>history_price_id = 2, history_coffee_type = ''raw'', old_price = ''150.00'',
       new_price = ''160.00'', changed_by = 1, reason = ''Price update'',
       history_id = 1, change_date = 10\<rparr>]"
proof -
  have cur: "loaded_price (admin_page example_store form_raw_160) =
      Some (with_creator [ana, ben] raw150)"
    by (simp add: loaded_price_def example_defs fetch_defs effect_defs store_defs)
  have u: "user (admin_page example_store form_raw_160) = Some ana"
    by (simp add: example_defs fetch_defs effect_defs store_defs)
  have ok: "submit_succeeds (answers Succeeds Succeeds Succeeds)
      (admin_page example_store form_raw_160)"
    by (simp add: submit_succeeds_iff cur u answers_def)
  have run: "db (handleSubmit (answers Succeeds Succeeds Succeeds)
       (admin_page example_store form_raw_160)) =
     \<lparr>users = [ana, ben], coffee_prices = [raw150\<lparr>is_active := False\<rparr>, raw160],
      coffee_price_history =
        [\<lparr>history_price_id = 2, history_coffee_type = ''raw'', old_price = ''150.00'',
          new_price = ''160.00'', changed_by = 1, reason = ''Price update'',
          history_id = 1, change_date = 10\<rparr>],
      clock = 10\<rparr>"
    by (simp add: submit_defs example_defs fetch_defs effect_defs store_defs)
  show ?thesis
    using submit_records_history[OF cur ok u] cur ok u run by simp
qed

text \<open>
  Claim C3. When the loaded list holds no price for the submitted coffee type, a
  submission creates no history row and issues neither the deactivating update nor the
  history insert; the only change to the store is the new price row, appended when the
  insert is issued and succeeds.
\<close>

theorem submit_first_price:
  assumes "loaded_price w = None"
  shows "coffee_price_history (db (handleSubmit r w)) = coffee_price_history (db w) \<and>
    users (db (handleSubmit r w)) = users (db w) \<and>
    (\<forall>k. UpdatePrice k \<notin> set (issued w (handleSubmit r w))) \<and>
    InsertHistory \<notin> set (issued w (handleSubmit r w)) \<and>
    coffee_prices (db (handleSubmit r w)) =
      (case user w of
         None \<Rightarrow> coffee_prices (db w)
       | Some u \<Rightarrow>
          (case insertReply r of
             Fails \<Rightarrow> coffee_prices (db w)
           | Succeeds \<Rightarrow>
               coffee_prices (db w) @ [inserted_price_row (db w) (newPrice w) (user_id u)]))"
  using assms
  by (simp add: submit_defs fetch_defs effect_defs loaded_price_def issued_def Let_def
      insert_price_def split: option.splits outcome.splits)

theorem submit_first_price_witness:
  "loaded_price (admin_page first_store form_raw_150) = None \<and>
   coffee_price_history (db (handleSubmit (answers Succeeds Succeeds Succeeds)
       (admin_page first_store form_raw_150))) = [] \<and>
   issued (admin_page first_store form_raw_150)
     (handleSubmit (answers Succeeds Succeeds Succeeds) (admin_page first_store form_raw_150)) =
     [InsertPrice, SelectPrices, SelectHistory] \<and>
   coffee_prices (db (handleSubmit (answers Succeeds Succeeds Succeeds)
       (admin_page first_store form_raw_150))) =
     [\<lparr>coffee_type = ''raw'', price_per_kg = ''150.00'', currency = ''PHP'',
       created_by = 1, is_active = True, price_id = 1, updated_at = 10\<rparr>]"
proof -
  have none: "loaded_price (admin_page first_store form_raw_150) = None"
    by (simp add: loaded_price_def example_defs fetch_defs effect_defs store_defs)
  have run: "issued (admin_page first_store form_raw_150)
     (handleSubmit (answers Succeeds Succeeds Succeeds) (admin_page first_store form_raw_150)) =
     [InsertPrice, SelectPrices, SelectHistory]"
    by (simp add: issued_def submit_defs example_defs fetch_defs effect_defs store_defs)
  have u: "user (admin_page first_store form_raw_150) = Some ana"
    by (simp add: example_defs fetch_defs effect_defs store_defs)
  show ?thesis
    using submit_first_price[OF none, of "answers Succeeds Succeeds Succeeds"] none run u
    by (simp add: example_defs fetch_defs effect_defs store_defs)
qed

text \<open>
  Claim C9. After a submission that succeeds, the form holds its default values (coffee
  type "raw", empty price, currency "PHP"), the success notice has been shown, and the
  last two requests issued are the read of the active prices and the read of the history;
  each list is what its read returned from the store as the writes left it, or, when its
  read failed, the list as it was, with the read's failure notice shown.
\<close>

theorem submit_success_effects:
  assumes "submit_succeeds r w"
  shows "newPrice (handleSubmit r w) = default_form \<and>
    coffee_type default_form = ''raw'' \<and> price_per_kg default_form = '''' \<and>
    currency default_form = ''PHP'' \<and>
    toasts (handleSubmit r w) =
      toasts w @ [ToastSuccess ''Price updated successfully''] @
       (case pricesReply r of
          Succeeds \<Rightarrow> [] | Fails \<Rightarrow> [ToastError ''Failed to fetch current prices'']) @
       (case historyReadReply r of
          Succeeds \<Rightarrow> [] | Fails \<Rightarrow> [ToastError ''Failed to fetch price history'']) \<and>
    (\<exists>qs. issued w (handleSubmit r w) = qs @ [SelectPrices, SelectHistory] \<and>
       SelectPrices \<notin> set qs \<and> SelectHistory \<notin> set qs) \<and>
    currentPrices (handleSubmit r w) =
      (case pricesReply r of
         Succeeds \<Rightarrow> select_active_prices (db (handleSubmit r w))
       | Fails \<Rightarrow> currentPrices w) \<and>
    priceHistory (handleSubmit r w) =
      (case historyReadReply r of
         Succeeds \<Rightarrow> select_history (db (handleSubmit r w))
       | Fails \<Rightarrow> priceHistory w) \<and>
    loading (handleSubmit r w) = False"
  using assms
  by (simp add: submit_succeeds_def submit_defs fetch_defs effect_defs issued_def Let_def
      default_form_def split: option.splits outcome.splits)

theorem submit_success_effects_witness:
  "submit_succeeds (answers Succeeds Succeeds Succeeds) (admin_page example_store form_raw_160) \<and>
   newPrice (handleSubmit (answers Succeeds Succeeds Succeeds)
      (admin_page example_store form_raw_160)) =
     \<lparr>coffee_type = ''raw'', price_per_kg = '''', currency = ''PHP''\<rparr> \<and>
   toasts (handleSubmit (answers Succeeds Succeeds Succeeds)
      (admin_page example_store form_raw_160)) = [ToastSuccess ''Price updated successfully''] \<and>
   map price_per_kg (currentPrices (handleSubmit (answers Succeeds Succeeds Succeeds)
      (admin_page example_store form_raw_160))) = [''160.00''] \<and>
   map new_price (priceHistory (handleSubmit (answers Succeeds Succeeds Succeeds)
      (admin_page example_store form_raw_160))) = [''160.00'']"
proof -
  have cur: "loaded_price (admin_page example_store form_raw_160) =
      Some (with_creator [ana, ben] raw150)"
    by (simp add: loaded_price_def example_defs fetch_defs effect_defs store_defs)
  have u: "user (admin_page example_store form_raw_160) = Some ana"
    by (simp add: example_defs fetch_defs effect_defs store_defs)
  have ok: "submit_succeeds (answers Succeeds Succeeds Succeeds)
      (admin_page example_store form_raw_160)"
    by (simp add: submit_succeeds_iff cur u answers_def)
  have run: "db (handleSubmit (answers Succeeds Succeeds Succeeds)
       (admin_page example_store form_raw_160)) =
     \<lparr>users = [ana, ben], coffee_prices = [raw150\<lparr>is_active := False\<rparr>, raw160],
      coffee_price_history =
        [\<lparr>history_price_id = 2, history_coffee_type = ''raw'', old_price = ''150.00'',
          new_price = ''160.00'', changed_by = 1, reason = ''Price update'',
          history_id = 1, change_date = 10\<rparr>],
      clock = 10\<rparr>"
    by (simp add: submit_defs example_defs fetch_defs effect_defs store_defs)
  have before: "toasts (admin_page example_store form_raw_160) = []"
    by (simp add: example_defs fetch_defs effect_defs store_defs)
  show ?thesis
    using submit_success_effects[OF ok] ok run before
    by (simp add: answers_def default_form_def store_defs raw150_def raw160_def)
qed

text \<open>
  Claim C10. When no admitted user is stored, a submission throws while it builds the
  argument of the first insert: no request is issued and the store is left as it was, the
  generic failure notice is shown, and the loading flag is cleared.
\<close>

theorem submit_null_user:
  assumes "user w = None"
  shows "submit_try r (w\<lparr>loading := True\<rparr>) = Inl (TypeError, w\<lparr>loading := True\<rparr>) \<and>
    db (handleSubmit r w) = db w \<and>
    requests (handleSubmit r w) = requests w \<and>
    toasts (handleSubmit r w) = toasts w @ [ToastError ''Failed to update price''] \<and>
    loading (handleSubmit r w) = False"
  using assms by (simp add: submit_defs effect_defs)

theorem submit_null_user_witness:
  "user (setNewPrice form_raw_160 (checkUser (Some 3) Succeeds (initial_world example_store))) = None \<and>
   db (handleSubmit (answers Succeeds Succeeds Succeeds)
        (setNewPrice form_raw_160 (checkUser (Some 3) Succeeds (initial_world example_store)))) =
     example_store \<and>
   requests (handleSubmit (answers Succeeds Succeeds Succeeds)
        (setNewPrice form_raw_160 (checkUser (Some 3) Succeeds (initial_world example_store)))) =
     [AuthGetUser, SelectUser 3] \<and>
   toasts (handleSubmit (answers Succeeds Succeeds Succeeds)
        (setNewPrice form_raw_160 (checkUser (Some 3) Succeeds (initial_world example_store)))) =
     [ToastError ''Error checking user permissions'', ToastError ''Failed to update price''] \<and>
   navigations (setNewPrice form_raw_160 (checkUser (Some 3) Succeeds (initial_world example_store))) = []"
proof -
  have none: "user (setNewPrice form_raw_160
      (checkUser (Some 3) Succeeds (initial_world example_store))) = None"
    by (simp add: example_defs effect_defs store_defs)
  show ?thesis
    using submit_null_user[OF none, of "answers Succeeds Succeeds Succeeds"] none
    by (simp add: example_defs effect_defs store_defs)
qed

lemma count_one_loaded:
  assumes inv: "at_most_one_active (coffee_prices (db w))"
    and sync: "currentPrices w = select_active_prices (db w)"
    and cur: "loaded_price w = Some cur"
  shows "count_active (coffee_type (newPrice w)) (coffee_prices (db w)) = 1"
proof -
  from loaded_Some[OF sync cur] obtain r0 where "r0 \<in> set (coffee_prices (db w))"
    "is_active r0" "coffee_type r0 = coffee_type (newPrice w)" by blast
  then have "0 < count_active (coffee_type (newPrice w)) (coffee_prices (db w))"
    by (auto simp: count_active_def filter_empty_conv)
  moreover from inv have "count_active (coffee_type (newPrice w)) (coffee_prices (db w)) \<le> 1"
    by (simp add: at_most_one_active_iff)
  ultimately show ?thesis by simp
qed

text \<open>
  Claim C8, as amended. When a write step of a submission fails, the generic failure
  notice is the one notice shown, nothing after the failing request is done (no later
  request, no reset of the form, no refresh of the lists), and the store keeps what the
  earlier steps wrote. In particular, when the insert succeeded and the deactivation
  failed, the store has one more active row of the submitted coffee type than before:
  two, when the store had at most one active row per coffee type and the loaded list of
  active prices was what the store held.
\<close>

theorem submit_write_failure:
  assumes "write_fails r w" and "user w = Some u"
  shows "toasts (handleSubmit r w) = toasts w @ [ToastError ''Failed to update price''] \<and>
    newPrice (handleSubmit r w) = newPrice w \<and>
    currentPrices (handleSubmit r w) = currentPrices w \<and>
    priceHistory (handleSubmit r w) = priceHistory w \<and>
    loading (handleSubmit r w) = False \<and>
    SelectPrices \<notin> set (issued w (handleSubmit r w)) \<and>
    SelectHistory \<notin> set (issued w (handleSubmit r w)) \<and>
    (insertReply r = Fails \<longrightarrow>
       issued w (handleSubmit r w) = [InsertPrice] \<and> db (handleSubmit r w) = db w) \<and>
    (insertReply r = Succeeds \<and> updateReply r = Fails \<longrightarrow>
       (\<exists>cur. loaded_price w = Some cur \<and>
          issued w (handleSubmit r w) = [InsertPrice, UpdatePrice (price_id cur)]) \<and>
       db (handleSubmit r w) = insert_price (db w) (newPrice w) (user_id u) \<and>
       count_active (coffee_type (newPrice w)) (coffee_prices (db (handleSubmit r w))) =
         count_active (coffee_type (newPrice w)) (coffee_prices (db w)) + 1 \<and>
       (at_most_one_active (coffee_prices (db w)) \<and>
        currentPrices w = select_active_prices (db w) \<longrightarrow>
          count_active (coffee_type (newPrice w)) (coffee_prices (db (handleSubmit r w))) = 2)) \<and>
    (insertReply r = Succeeds \<and> updateReply r = Succeeds \<longrightarrow>
       (\<exists>cur. loaded_price w = Some cur \<and>
          issued w (handleSubmit r w) =
            [InsertPrice, UpdatePrice (price_id cur), InsertHistory] \<and>
          db (handleSubmit r w) =
            update_inactive (insert_price (db w) (newPrice w) (user_id u)) (price_id cur)))"
proof -
  from assms(1) have cases: "insertReply r = Fails \<or>
      loaded_price w \<noteq> None \<and> (updateReply r = Fails \<or> historyReply r = Fails)"
    by (simp add: write_fails_iff)
  have general: "toasts (handleSubmit r w) = toasts w @ [ToastError ''Failed to update price''] \<and>
    newPrice (handleSubmit r w) = newPrice w \<and>
    currentPrices (handleSubmit r w) = currentPrices w \<and>
    priceHistory (handleSubmit r w) = priceHistory w \<and>
    loading (handleSubmit r w) = False \<and>
    SelectPrices \<notin> set (issued w (handleSubmit r w)) \<and>
    SelectHistory \<notin> set (issued w (handleSubmit r w))"
    using cases assms(2)
    by (auto simp add: submit_defs effect_defs issued_def loaded_price_def Let_def
        split: option.splits outcome.splits)
  have a: "insertReply r = Fails \<longrightarrow>
       issued w (handleSubmit r w) = [InsertPrice] \<and> db (handleSubmit r w) = db w"
    using assms(2) by (simp add: submit_defs effect_defs issued_def Let_def)
  have b: "insertReply r = Succeeds \<and> updateReply r = Fails \<longrightarrow>
       (\<exists>cur. loaded_price w = Some cur \<and>
          issued w (handleSubmit r w) = [InsertPrice, UpdatePrice (price_id cur)]) \<and>
       db (handleSubmit r w) = insert_price (db w) (newPrice w) (user_id u)"
    using cases assms(2)
    by (auto simp add: submit_defs effect_defs issued_def loaded_price_def Let_def)
  have plus: "count_active (coffee_type (newPrice w))
        (coffee_prices (insert_price (db w) (newPrice w) (user_id u))) =
      count_active (coffee_type (newPrice w)) (coffee_prices (db w)) + 1"
    by (simp add: insert_price_def count_active_snoc inserted_price_row_simps)
  have two: "insertReply r = Succeeds \<and> updateReply r = Fails \<longrightarrow>
       at_most_one_active (coffee_prices (db w)) \<and>
       currentPrices w = select_active_prices (db w) \<longrightarrow>
       count_active (coffee_type (newPrice w)) (coffee_prices (db w)) = 1"
    using b count_one_loaded[of w] by blast
  have c: "insertReply r = Succeeds \<and> updateReply r = Succeeds \<longrightarrow>
       (\<exists>cur. loaded_price w = Some cur \<and>
          issued w (handleSubmit r w) =
            [InsertPrice, UpdatePrice (price_id cur), InsertHistory] \<and>
          db (handleSubmit r w) =
            update_inactive (insert_price (db w) (newPrice w) (user_id u)) (price_id cur))"
    using cases assms(2)
    by (auto simp add: submit_defs effect_defs issued_def loaded_price_def Let_def)
  from b plus two have b': "insertReply r = Succeeds \<and> updateReply r = Fails \<longrightarrow>
       (\<exists>cur. loaded_price w = Some cur \<and>
          issued w (handleSubmit r w) = [InsertPrice, UpdatePrice (price_id cur)]) \<and>
       db (handleSubmit r w) = insert_price (db w) (newPrice w) (user_id u) \<and>
       count_active (coffee_type (newPrice w)) (coffee_prices (db (handleSubmit r w))) =
         count_active (coffee_type (newPrice w)) (coffee_prices (db w)) + 1 \<and>
       (at_most_one_active (coffee_prices (db w)) \<and>
        currentPrices w = select_active_prices (db w) \<longrightarrow>
          count_active (coffee_type (newPrice w)) (coffee_prices (db (handleSubmit r w))) = 2)"
    by simp
  from general a b' c show ?thesis by blast
qed

theorem submit_write_failure_witness:
  "write_fails (answers Fails Succeeds Succeeds) (admin_page example_store form_raw_160) \<and>
   write_fails (answers Succeeds Fails Succeeds) (admin_page example_store form_raw_160) \<and>
   write_fails (answers Succeeds Succeeds Fails) (admin_page example_store form_raw_160) \<and>
   user (admin_page example_store form_raw_160) = Some ana \<and>
   at_most_one_active (coffee_prices (db (admin_page example_store form_raw_160))) \<and>
   currentPrices (admin_page example_store form_raw_160) =
     select_active_prices (db (admin_page example_store form_raw_160)) \<and>
   db (handleSubmit (answers Fails Succeeds Succeeds) (admin_page example_store form_raw_160)) =
     example_store \<and>
   coffee_prices (db (handleSubmit (answers Succeeds Fails Succeeds)
     (admin_page example_store form_raw_160))) = [raw150, raw160] \<and>
   count_active ''raw'' (coffee_prices (db (handleSubmit (answers Succeeds Fails Succeeds)
     (admin_page example_store form_raw_160)))) = 2 \<and>
   coffee_prices (db (handleSubmit (answers Succeeds Succeeds Fails)
     (admin_page example_store form_raw_160))) = [raw150\<lparr>is_active := False\<rparr>, raw160] \<and>
   coffee_price_history (db (handleSubmit (answers Succeeds Succeeds Fails)
     (admin_page example_store form_raw_160))) = [] \<and>
   toasts (handleSubmit (answers Succeeds Fails Succeeds) (admin_page example_store form_raw_160)) =
     [ToastError ''Failed to update price'']"
proof -
  have u: "user (admin_page example_store form_raw_160) = Some ana"
    by (simp add: example_defs fetch_defs effect_defs store_defs)
  have cur: "loaded_price (admin_page example_store form_raw_160) =
      Some (with_creator [ana, ben] raw150)"
    by (simp add: loaded_price_def example_defs fetch_defs effect_defs store_defs)
  have f1: "write_fails (answers Fails Succeeds Succeeds) (admin_page example_store form_raw_160)"
    and f2: "write_fails (answers Succeeds Fails Succeeds) (admin_page example_store form_raw_160)"
    and f3: "write_fails (answers Succeeds Succeeds Fails) (admin_page example_store form_raw_160)"
    by (simp_all add: write_fails_iff u cur answers_def)
  have inv: "at_most_one_active (coffee_prices (db (admin_page example_store form_raw_160)))"
    by (simp add: example_defs fetch_defs effect_defs store_defs at_most_one_active_def)
  have sync: "currentPrices (admin_page example_store form_raw_160) =
      select_active_prices (db (admin_page example_store form_raw_160))"
    by (simp add: example_defs fetch_defs effect_defs store_defs)
  have t: "coffee_type (newPrice (admin_page example_store form_raw_160)) = ''raw''"
    by (simp add: example_defs fetch_defs effect_defs)
  have two: "count_active ''raw'' (coffee_prices (db (handleSubmit (answers Succeeds Fails Succeeds)
      (admin_page example_store form_raw_160)))) = 2"
  proof -
    have s: "insertReply (answers Succeeds Fails Succeeds) = Succeeds \<and>
        updateReply (answers Succeeds Fails Succeeds) = Fails"
      by (simp add: answers_def)
    from submit_write_failure[OF f2 u] s inv sync
    have "count_active (coffee_type (newPrice (admin_page example_store form_raw_160)))
        (coffee_prices (db (handleSubmit (answers Succeeds Fails Succeeds)
          (admin_page example_store form_raw_160)))) = 2"
      by blast
    then show ?thesis by (simp only: t)
  qed
  have shown: "toasts (handleSubmit (answers Succeeds Fails Succeeds)
      (admin_page example_store form_raw_160)) = [ToastError ''Failed to update price'']"
    using submit_write_failure[OF f2 u]
    by (simp add: example_defs fetch_defs effect_defs store_defs)
  have d1: "db (handleSubmit (answers Fails Succeeds Succeeds)
      (admin_page example_store form_raw_160)) = example_store"
    using submit_write_failure[OF f1 u]
    by (simp add: example_defs fetch_defs effect_defs store_defs)
  have d2: "coffee_prices (db (handleSubmit (answers Succeeds Fails Succeeds)
      (admin_page example_store form_raw_160))) = [raw150, raw160]"
    by (simp add: submit_defs example_defs fetch_defs effect_defs store_defs)
  have d3: "coffee_prices (db (handleSubmit (answers Succeeds Succeeds Fails)
        (admin_page example_store form_raw_160))) = [raw150\<lparr>is_active := False\<rparr>, raw160] \<and>
      coffee_price_history (db (handleSubmit (answers Succeeds Succeeds Fails)
        (admin_page example_store form_raw_160))) = []"
    by (simp add: submit_defs example_defs fetch_defs effect_defs store_defs)
  show ?thesis
    using f1 f2 f3 u inv sync two shown d1 d2 d3 by simp
qed

text \<open>
  Claim C8 as it is written fails. After a submission whose deactivating update was
  refused, the store has two active rows for raw coffee while the page still shows the
  old list and the filled form. Ana submits again and the update is refused again: the
  insert succeeded, the deactivation of the old record failed, and the store is left
  with three active rows for raw coffee, not two.
\<close>

theorem submit_repeated_failure_three_active:
  "write_fails (answers Succeeds Fails Succeeds) failed_once \<and>
   user failed_once = Some ana \<and>
   loaded_price failed_once = Some (with_creator [ana, ben] raw150) \<and>
   insertReply (answers Succeeds Fails Succeeds) = Succeeds \<and>
   updateReply (answers Succeeds Fails Succeeds) = Fails \<and>
   coffee_prices (db failed_once) = [raw150, raw160] \<and>
   issued failed_once (handleSubmit (answers Succeeds Fails Succeeds) failed_once) =
     [InsertPrice, UpdatePrice 1] \<and>
   coffee_prices (db (handleSubmit (answers Succeeds Fails Succeeds) failed_once)) =
     [raw150, raw160, raw160\<lparr>price_id := 3\<rparr>] \<and>
   count_active ''raw''
     (coffee_prices (db (handleSubmit (answers Succeeds Fails Succeeds) failed_once))) = 3"
  by (simp add: failed_once_def write_fails_def loaded_price_def issued_def count_active_def
      submit_defs example_defs fetch_defs effect_defs store_defs)

subsection \<open>The access gate\<close>

text \<open>
  Claim C5. With no authenticated principal the gate navigates to the login route. With
  a principal whose user row has a role other than "admin" it shows the notice that
  admin access is required and navigates to \<open>/dashboard\<close>, admitting nobody. With a
  principal whose user row has the role "admin" it stores that row as the admitted user
  and neither notifies nor navigates. When the lookup of the row fails it shows an error
  notice and neither navigates nor admits.
\<close>

theorem checkUser_gate:
  "navigations (checkUser None reply w) = navigations w @ [''/login''] \<and>
   user (checkUser None reply w) = user w \<and>
   toasts (checkUser None reply w) = toasts w \<and>
   (select_user_single (db w) k = Inr data \<and> role data \<noteq> ''admin'' \<longrightarrow>
      toasts (checkUser (Some k) Succeeds w) = toasts w @ [ToastError ''Admin access required''] \<and>
      navigations (checkUser (Some k) Succeeds w) = navigations w @ [''/dashboard''] \<and>
      user (checkUser (Some k) Succeeds w) = user w) \<and>
   (select_user_single (db w) k = Inr data \<and> role data = ''admin'' \<longrightarrow>
      user (checkUser (Some k) Succeeds w) = Some data \<and>
      navigations (checkUser (Some k) Succeeds w) = navigations w \<and>
      toasts (checkUser (Some k) Succeeds w) = toasts w) \<and>
   (reply = Fails \<or> select_user_single (db w) k = Inl e \<longrightarrow>
      toasts (checkUser (Some k) reply w) =
        toasts w @ [ToastError ''Error checking user permissions''] \<and>
      navigations (checkUser (Some k) reply w) = navigations w \<and>
      user (checkUser (Some k) reply w) = user w)"
  by (cases reply) (simp_all add: checkUser_def effect_defs Let_def)

theorem checkUser_gate_witness:
  "navigations (checkUser None Succeeds (initial_world example_store)) = [''/login''] \<and>
   select_user_single (db (initial_world example_store)) 2 = Inr ben \<and>
   role ben \<noteq> ''admin'' \<and>
   toasts (checkUser (Some 2) Succeeds (initial_world example_store)) =
     [ToastError ''Admin access required''] \<and>
   navigations (checkUser (Some 2) Succeeds (initial_world example_store)) = [''/dashboard''] \<and>
   user (checkUser (Some 2) Succeeds (initial_world example_store)) = None \<and>
   select_user_single (db (initial_world example_store)) 1 = Inr ana \<and>
   role ana = ''admin'' \<and>
   user (checkUser (Some 1) Succeeds (initial_world example_store)) = Some ana \<and>
   navigations (checkUser (Some 1) Succeeds (initial_world example_store)) = [] \<and>
   select_user_single (db (initial_world example_store)) 3 = Inl StoreError \<and>
   toasts (checkUser (Some 3) Succeeds (initial_world example_store)) =
     [ToastError ''Error checking user permissions''] \<and>
   navigations (checkUser (Some 3) Succeeds (initial_world example_store)) = []"
proof -
  have b: "select_user_single (db (initial_world example_store)) 2 = Inr ben \<and>
      role ben \<noteq> ''admin''"
    by (simp add: select_user_single_def initial_world_def example_store_def ana_def ben_def)
  have a: "select_user_single (db (initial_world example_store)) 1 = Inr ana \<and>
      role ana = ''admin''"
    by (simp add: select_user_single_def initial_world_def example_store_def ana_def ben_def)
  have c: "select_user_single (db (initial_world example_store)) 3 = Inl StoreError"
    by (simp add: select_user_single_def initial_world_def example_store_def ana_def ben_def)
  have start: "toasts (initial_world example_store) = [] \<and>
      navigations (initial_world example_store) = [] \<and> user (initial_world example_store) = None"
    by (simp add: initial_world_def)
  show ?thesis
    using checkUser_gate[of Succeeds "initial_world example_store" 2 ben StoreError]
      checkUser_gate[of Succeeds "initial_world example_store" 1 ana StoreError]
      checkUser_gate[of Succeeds "initial_world example_store" 3 ana StoreError]
      a b c start
    by simp
qed

text \<open>
  Claim C6, as amended. A principal whose user row has a role other than "admin" is
  not admitted when the page loads: the notice is shown and the page navigates to
  \<open>/dashboard\<close>. The read of the active prices and the read of the price history are
  issued to the store all the same.
\<close>

theorem mount_non_admin_reads:
  assumes "select_user_single (db w) k = Inr data" and "role data \<noteq> ''admin''"
  shows "user (mount (Some k) Succeeds pricesAnswer historyAnswer w) = user w \<and>
    navigations (mount (Some k) Succeeds pricesAnswer historyAnswer w) =
      navigations w @ [''/dashboard''] \<and>
    ToastError ''Admin access required''
      \<in> set (toasts (mount (Some k) Succeeds pricesAnswer historyAnswer w)) \<and>
    SelectPrices \<in> set (issued w (mount (Some k) Succeeds pricesAnswer historyAnswer w)) \<and>
    SelectHistory \<in> set (issued w (mount (Some k) Succeeds pricesAnswer historyAnswer w))"
  using assms
  by (cases pricesAnswer; cases historyAnswer)
     (simp_all add: mount_def checkUser_def fetchPrices_def fetchPriceHistory_def effect_defs
        issued_def Let_def)

theorem mount_non_admin_reads_witness:
  "select_user_single (db (initial_world example_store)) 2 = Inr ben \<and>
   role ben \<noteq> ''admin'' \<and>
   user (mount (Some 2) Succeeds Succeeds Succeeds (initial_world example_store)) = None \<and>
   navigations (mount (Some 2) Succeeds Succeeds Succeeds (initial_world example_store)) =
     [''/dashboard''] \<and>
   SelectPrices \<in> set (issued (initial_world example_store)
     (mount (Some 2) Succeeds Succeeds Succeeds (initial_world example_store))) \<and>
   SelectHistory \<in> set (issued (initial_world example_store)
     (mount (Some 2) Succeeds Succeeds Succeeds (initial_world example_store)))"
proof -
  have b: "select_user_single (db (initial_world example_store)) 2 = Inr ben"
    and r: "role ben \<noteq> ''admin''"
    by (simp_all add: select_user_single_def initial_world_def example_store_def ana_def ben_def)
  have start: "navigations (initial_world example_store) = [] \<and>
      user (initial_world example_store) = None"
    by (simp add: initial_world_def)
  show ?thesis
    using mount_non_admin_reads[OF b r, of Succeeds Succeeds] b r start by simp
qed

text \<open>
  Claim C6 as it is written fails. Ben, who is no admin, opens the page: he is sent to
  \<open>/dashboard\<close>, and the read of the active prices and the read of the price history
  are both among the requests issued.
\<close>

theorem mount_non_admin_fetches:
  "role ben = ''farmer'' \<and>
   navigations (mount (Some 2) Succeeds Succeeds Succeeds (initial_world example_store)) =
     [''/dashboard''] \<and>
   SelectPrices
     \<in> set (requests (mount (Some 2) Succeeds Succeeds Succeeds (initial_world example_store))) \<and>
   SelectHistory
     \<in> set (requests (mount (Some 2) Succeeds Succeeds Succeeds (initial_world example_store)))"
  by (simp add: example_defs fetch_defs effect_defs store_defs)

subsection \<open>The two reads\<close>

text \<open>
  Claim C7, as amended. When either read fails, both lists stay as they were and the
  read's failure notice is shown; neither read changes the store. The read of the price
  history clears the loading flag whatever its outcome; the read of the active prices
  leaves the loading flag as it was, whatever its outcome.
\<close>

theorem read_failure_keeps_lists:
  "currentPrices (fetchPrices Fails w) = currentPrices w \<and>
   priceHistory (fetchPrices Fails w) = priceHistory w \<and>
   toasts (fetchPrices Fails w) = toasts w @ [ToastError ''Failed to fetch current prices''] \<and>
   currentPrices (fetchPriceHistory Fails w) = currentPrices w \<and>
   priceHistory (fetchPriceHistory Fails w) = priceHistory w \<and>
   toasts (fetchPriceHistory Fails w) = toasts w @ [ToastError ''Failed to fetch price history''] \<and>
   db (fetchPrices reply w) = db w \<and>
   db (fetchPriceHistory reply w) = db w \<and>
   loading (fetchPriceHistory reply w) = False \<and>
   loading (fetchPrices reply w) = loading w"
  by (cases reply) (simp_all add: fetchPrices_def fetchPriceHistory_def effect_defs Let_def)

theorem read_failure_keeps_lists_witness:
  "currentPrices (fetchPrices Fails (admin_page example_store form_raw_160)) =
     [with_creator [ana, ben] raw150] \<and>
   toasts (fetchPrices Fails (admin_page example_store form_raw_160)) =
     [ToastError ''Failed to fetch current prices''] \<and>
   loading (fetchPriceHistory Fails (initial_world example_store)) = False"
proof -
  have start: "currentPrices (admin_page example_store form_raw_160) =
      [with_creator [ana, ben] raw150] \<and> toasts (admin_page example_store form_raw_160) = []"
    by (simp add: example_defs fetch_defs effect_defs store_defs)
  show ?thesis
    using read_failure_keeps_lists[of "admin_page example_store form_raw_160" Fails]
      read_failure_keeps_lists[of "initial_world example_store" Fails] start
    by simp
qed

text \<open>
  Claim C7 as it is written fails for the read of the active prices: on the page as
  first rendered the loading flag is set, and it is still set after that read, failed or
  not.
\<close>

theorem fetchPrices_keeps_loading:
  "loading (initial_world example_store) = True \<and>
   loading (fetchPrices Fails (initial_world example_store)) = True \<and>
   loading (fetchPrices Succeeds (initial_world example_store)) = True"
  by (simp add: fetchPrices_def effect_defs initial_world_def)

lemma change_date_with_user: "change_date (with_user us h) = change_date h"
  by (simp add: with_user_def)

lemma select_history_descending: "descending (select_history s)"
proof -
  have "sorted (map change_date (sort_key change_date (coffee_price_history s)))"
    by (rule sorted_sort_key)
  then have "sorted_wrt (\<lambda>a b. change_date a \<le> change_date b)
      (sort_key change_date (coffee_price_history s))"
    by (simp add: sorted_map)
  then show ?thesis
    by (simp add: descending_def select_history_def sorted_wrt_map sorted_wrt_rev
        change_date_with_user)
qed

lemma select_history_strict:
  assumes "distinct (map change_date (coffee_price_history s))"
  shows "strictly_descending (select_history s)"
proof -
  have "mset (map change_date (sort_key change_date (coffee_price_history s))) =
      mset (map change_date (coffee_price_history s))"
    by simp
  then have "distinct (map change_date (sort_key change_date (coffee_price_history s)))"
    using assms mset_eq_imp_distinct_iff by blast
  moreover have "sorted (map change_date (sort_key change_date (coffee_price_history s)))"
    by (rule sorted_sort_key)
  ultimately have "sorted_wrt (<) (map change_date (sort_key change_date (coffee_price_history s)))"
    by (simp add: strict_sorted_iff)
  then have "sorted_wrt (\<lambda>a b. change_date a < change_date b)
      (sort_key change_date (coffee_price_history s))"
    by (simp add: sorted_wrt_map)
  then show ?thesis
    by (simp add: strictly_descending_def select_history_def sorted_wrt_map sorted_wrt_rev
        change_date_with_user)
qed

text \<open>
  Claim C4, as amended. The read of the price history issues one select; when it
  succeeds, the displayed list holds every history row of the store once, each with the
  names of the user its \<open>changed_by\<close> refers to, ordered by \<open>change_date\<close> descending:
  no row stands before one with a later date. The order is strict when no two rows of
  the store have the same date.
\<close>

theorem history_descending:
  "issued w (fetchPriceHistory Succeeds w) = [SelectHistory] \<and>
   mset (priceHistory (fetchPriceHistory Succeeds w)) =
     image_mset (with_user (users (db w))) (mset (coffee_price_history (db w))) \<and>
   (\<forall>v \<in> set (priceHistory (fetchPriceHistory Succeeds w)).
      history_user v = join_person (users (db w)) (changed_by v)) \<and>
   descending (priceHistory (fetchPriceHistory Succeeds w)) \<and>
   (distinct (map change_date (coffee_price_history (db w))) \<longrightarrow>
      strictly_descending (priceHistory (fetchPriceHistory Succeeds w)))"
proof -
  have shown: "priceHistory (fetchPriceHistory Succeeds w) = select_history (db w)"
    by (simp add: fetchPriceHistory_def effect_defs Let_def)
  have req: "issued w (fetchPriceHistory Succeeds w) = [SelectHistory]"
    by (simp add: fetchPriceHistory_def effect_defs issued_def Let_def)
  have all: "mset (select_history (db w)) =
      image_mset (with_user (users (db w))) (mset (coffee_price_history (db w)))"
    by (simp add: select_history_def)
  have names: "\<forall>v \<in> set (select_history (db w)).
      history_user v = join_person (users (db w)) (changed_by v)"
    by (auto simp: select_history_def with_user_def)
  show ?thesis
    unfolding shown using req all names select_history_descending select_history_strict
    by blast
qed

theorem history_descending_witness:
  "map change_date (priceHistory (fetchPriceHistory Succeeds (initial_world history_store))) =
     [9, 6, 3] \<and>
   map history_user (priceHistory (fetchPriceHistory Succeeds (initial_world history_store))) =
     [Some \<lparr>first_name = ''Ana'', last_name = ''Cruz''\<rparr>, None,
      Some \<lparr>first_name = ''Ana'', last_name = ''Cruz''\<rparr>] \<and>
   distinct (map change_date (coffee_price_history (db (initial_world history_store)))) \<and>
   descending (priceHistory (fetchPriceHistory Succeeds (initial_world history_store))) \<and>
   strictly_descending (priceHistory (fetchPriceHistory Succeeds (initial_world history_store)))"
proof -
  have d: "distinct (map change_date (coffee_price_history (db (initial_world history_store))))"
    by (simp add: example_defs)
  have run: "map change_date
        (priceHistory (fetchPriceHistory Succeeds (initial_world history_store))) = [9, 6, 3] \<and>
      map history_user
        (priceHistory (fetchPriceHistory Succeeds (initial_world history_store))) =
        [Some \<lparr>first_name = ''Ana'', last_name = ''Cruz''\<rparr>, None,
         Some \<lparr>first_name = ''Ana'', last_name = ''Cruz''\<rparr>]"
    by (simp add: example_defs fetch_defs effect_defs store_defs)
  show ?thesis
    using history_descending[of "initial_world history_store"] d run by blast
qed

text \<open>
  Claim C4 as it is written fails: over a store that holds two history rows with the
  same change date, the displayed list has both, and it is not strictly descending.
\<close>

theorem history_ties_not_strict:
  "map change_date (priceHistory (fetchPriceHistory Succeeds (initial_world tie_store))) =
     [7, 7] \<and>
   \<not> strictly_descending (priceHistory (fetchPriceHistory Succeeds (initial_world tie_store)))"
  by (simp add: example_defs fetch_defs effect_defs store_defs strictly_descending_def)

end
